theory Spec2Isabelle
  imports Main
begin

section \<open>JavaScript values reaching the endpoint table\<close>

text \<open>
  The query functions of \<^verbatim>\<open>src/services/TMDB.js\<close> receive untyped JavaScript values
  and paste them into template literals. The values modelled are the primitive ones:
  \<open>undefined\<close> (also what a missing property of the destructured argument object
  reads as), \<open>null\<close>, booleans, strings, the number \<open>NaN\<close> and the integer-valued
  numbers that JavaScript prints as plain decimal digits (\<open>JNum n\<close>): the integers
  \<open>n\<close> of magnitude below \<open>2 ^ 53\<close>, which a JavaScript number holds exactly.
  Larger magnitudes print rounded or with an exponent in JavaScript and are not values
  of this model. Strings are lists of 8-bit characters.
\<close>

datatype jsval = JUndefined | JNull | JBool bool | JNum int | JNaN | JStr string

text \<open>The condition of an \<^verbatim>\<open>if (v)\<close>: JavaScript's ToBoolean.\<close>

fun truthy :: "jsval \<Rightarrow> bool" where
  "truthy JUndefined = False"
| "truthy JNull = False"
| "truthy (JBool b) = b"
| "truthy (JNum n) = (n \<noteq> 0)"
| "truthy JNaN = False"
| "truthy (JStr s) = (s \<noteq> [])"

text \<open>The \<^verbatim>\<open>typeof\<close> operator.\<close>

fun typeof :: "jsval \<Rightarrow> string" where
  "typeof JUndefined = ''undefined''"
| "typeof JNull = ''object''"
| "typeof (JBool b) = ''boolean''"
| "typeof (JNum n) = ''number''"
| "typeof JNaN = ''number''"
| "typeof (JStr s) = ''string''"

text \<open>Decimal digits of a natural number, most significant first.\<close>

definition digit_char :: "nat \<Rightarrow> char" where
  "digit_char d = ''0123456789'' ! (d mod 10)"

fun dec_nat :: "nat \<Rightarrow> string" where
  "dec_nat n = (if n < 10 then [digit_char n] else dec_nat (n div 10) @ [digit_char (n mod 10)])"

declare dec_nat.simps [simp del]

definition number_to_string :: "int \<Rightarrow> string" where
  "number_to_string n = (if n < 0 then CHR ''-'' # dec_nat (nat (- n)) else dec_nat (nat n))"

text \<open>What \<^verbatim>\<open>${v}\<close> pastes into a template literal: JavaScript's ToString.\<close>

fun to_string :: "jsval \<Rightarrow> string" where
  "to_string JUndefined = ''undefined''"
| "to_string JNull = ''null''"
| "to_string (JBool b) = (if b then ''true'' else ''false'')"
| "to_string (JNum n) = number_to_string n"
| "to_string JNaN = ''NaN''"
| "to_string (JStr s) = s"

section \<open>The module-level credential\<close>

text \<open>
  Line 3: \<^verbatim>\<open>const tmdbApiKey = process.env.REACT_APP_TMDB_KEY\<close>. The environment is
  a list of variable names with their text; reading a variable that is not set gives
  \<open>undefined\<close>. Nothing is checked and nothing is raised.
\<close>

type_synonym environment = "(string \<times> string) list"

definition tmdbApiKey :: "environment \<Rightarrow> jsval" where
  "tmdbApiKey env =
     (case map_of env ''REACT_APP_TMDB_KEY'' of None \<Rightarrow> JUndefined | Some v \<Rightarrow> JStr v)"

section \<open>The query functions\<close>

text \<open>
  Each function takes the credential read at module load as its first argument and the
  properties destructured from the argument object after it, in the order of the source.
  The argument of a destructuring function is an object, as the generated hooks are
  given one; a property it does not set reads as \<open>undefined\<close>. The two functions
  declared with a plain parameter \<open>id\<close> take any value (\<open>ident\<close> here).
\<close>

definition getGenres :: "jsval \<Rightarrow> string" where
  "getGenres key = ''/genre/movie/list?api_key='' @ to_string key"

definition getMovies :: "jsval \<Rightarrow> jsval \<Rightarrow> jsval \<Rightarrow> jsval \<Rightarrow> string" where
  "getMovies key genreIdOrCategoryName page searchQuery =
     (if truthy searchQuery then
        ''/search/movie?query='' @ to_string searchQuery @ ''&page='' @ to_string page
          @ ''&api_key='' @ to_string key
      else if truthy genreIdOrCategoryName \<and> typeof genreIdOrCategoryName = ''string'' then
        ''/movie/'' @ to_string genreIdOrCategoryName @ ''?page='' @ to_string page
          @ ''&api_key='' @ to_string key
      else if truthy genreIdOrCategoryName \<and> typeof genreIdOrCategoryName = ''number'' then
        ''discover/movie?with_genres='' @ to_string genreIdOrCategoryName @ ''&page=''
          @ to_string page @ ''&api_key='' @ to_string key
      else
        ''/movie/popular?page='' @ to_string page @ ''&api_key='' @ to_string key)"

definition getMovie :: "jsval \<Rightarrow> jsval \<Rightarrow> string" where
  "getMovie key ident =
     ''/movie/'' @ to_string ident @ ''?append_to_response=videos,credits&api_key=''
       @ to_string key"

definition getRecommendations :: "jsval \<Rightarrow> jsval \<Rightarrow> jsval \<Rightarrow> string" where
  "getRecommendations key movieId list =
     ''/movie/'' @ to_string movieId @ ''/'' @ to_string list @ ''?api_key='' @ to_string key"

definition getActorDetails :: "jsval \<Rightarrow> jsval \<Rightarrow> string" where
  "getActorDetails key ident = ''person/'' @ to_string ident @ ''?api_key='' @ to_string key"

definition getMoviesByActorId :: "jsval \<Rightarrow> jsval \<Rightarrow> jsval \<Rightarrow> string" where
  "getMoviesByActorId key ident page =
     ''/discover/movie?with_cast='' @ to_string ident @ ''&page='' @ to_string page
       @ ''&api_key='' @ to_string key"

definition getList :: "jsval \<Rightarrow> jsval \<Rightarrow> jsval \<Rightarrow> jsval \<Rightarrow> jsval \<Rightarrow> string" where
  "getList key listName accountId sessionId page =
     ''/account/'' @ to_string accountId @ ''/'' @ to_string listName @ ''?api_key=''
       @ to_string key @ ''&session_id='' @ to_string sessionId @ ''&page='' @ to_string page"

section \<open>The endpoint table\<close>

text \<open>
  A call names one of the seven endpoints registered by \<^verbatim>\<open>createApi\<close> with the
  properties of its argument, in the order of the source's parameter lists.
\<close>

datatype call =
    GetGenres
  | GetMovies jsval jsval jsval
  | GetMovie jsval
  | GetRecommendations jsval jsval
  | GetActorDetails jsval
  | GetMoviesByActorId jsval jsval
  | GetList jsval jsval jsval jsval

fun endpoints :: "jsval \<Rightarrow> call \<Rightarrow> string" where
  "endpoints key GetGenres = getGenres key"
| "endpoints key (GetMovies genreIdOrCategoryName page searchQuery) =
     getMovies key genreIdOrCategoryName page searchQuery"
| "endpoints key (GetMovie ident) = getMovie key ident"
| "endpoints key (GetRecommendations movieId list) = getRecommendations key movieId list"
| "endpoints key (GetActorDetails ident) = getActorDetails key ident"
| "endpoints key (GetMoviesByActorId ident page) = getMoviesByActorId key ident page"
| "endpoints key (GetList listName accountId sessionId page) =
     getList key listName accountId sessionId page"

fun call_args :: "call \<Rightarrow> jsval list" where
  "call_args GetGenres = []"
| "call_args (GetMovies genreIdOrCategoryName page searchQuery) =
     [genreIdOrCategoryName, page, searchQuery]"
| "call_args (GetMovie ident) = [ident]"
| "call_args (GetRecommendations movieId list) = [movieId, list]"
| "call_args (GetActorDetails ident) = [ident]"
| "call_args (GetMoviesByActorId ident page) = [ident, page]"
| "call_args (GetList listName accountId sessionId page) =
     [listName, accountId, sessionId, page]"

section \<open>Joining to the base URL\<close>

text \<open>
  Line 7 hands every returned text to \<^verbatim>\<open>fetchBaseQuery\<close> with the base URL
  \<^verbatim>\<open>https://api.themoviedb.org/3\<close>. That library is not part of the repository; its
  published \<^verbatim>\<open>joinUrls\<close> is modelled here. A text that has \<open>//\<close> at its start or
  after a colon counts as absolute and is taken as it is. Otherwise one trailing slash
  of the base and one leading slash of the text are dropped and the two are put
  together, with a slash between them unless the text starts with \<open>?\<close> and the base
  does not end in a slash.
\<close>

definition baseUrl :: string where
  "baseUrl = ''https://api.themoviedb.org/3''"

fun colon_slashes :: "string \<Rightarrow> bool" where
  "colon_slashes [] = False"
| "colon_slashes (x # xs) = ((x = CHR '':'' \<and> take 2 xs = ''//'') \<or> colon_slashes xs)"

definition isAbsoluteUrl :: "string \<Rightarrow> bool" where
  "isAbsoluteUrl url = (take 2 url = ''//'' \<or> colon_slashes url)"

definition endsWithSlash :: "string \<Rightarrow> bool" where
  "endsWithSlash base = (base \<noteq> [] \<and> last base = CHR ''/'')"

definition withoutTrailingSlash :: "string \<Rightarrow> string" where
  "withoutTrailingSlash base = (if endsWithSlash base then butlast base else base)"

definition withoutLeadingSlash :: "string \<Rightarrow> string" where
  "withoutLeadingSlash url = (if take 1 url = ''/'' then drop 1 url else url)"

definition joinUrls :: "string \<Rightarrow> string \<Rightarrow> string" where
  "joinUrls base url =
     (if base = [] then url
      else if url = [] then base
      else if isAbsoluteUrl url then url
      else withoutTrailingSlash base
             @ (if endsWithSlash base \<or> take 1 url \<noteq> ''?'' then ''/'' else [])
             @ withoutLeadingSlash url)"

section \<open>Request targets\<close>

text \<open>
  A request target is a resource path and an ordered list of query parameters. Written
  as a URL, the path is followed by \<open>?\<close> and the parameters \<open>name=value\<close>, separated
  by \<open>&\<close>.
\<close>

record target =
  path :: string
  params :: "(string \<times> string) list"

fun join_params :: "(string \<times> string) list \<Rightarrow> string" where
  "join_params [] = []"
| "join_params [(k, v)] = k @ ''='' @ v"
| "join_params ((k, v) # kvs) = k @ ''='' @ v @ ''&'' @ join_params kvs"

definition render :: "target \<Rightarrow> string" where
  "render t = path t @ ''?'' @ join_params (params t)"

text \<open>
  The return statement that \<open>getMovies\<close> reaches: the control flow of its body with the
  strings left out.
\<close>

datatype branch = Search | Category | Genre | Popular

definition getMovies_branch :: "jsval \<Rightarrow> jsval \<Rightarrow> branch" where
  "getMovies_branch genreIdOrCategoryName searchQuery =
     (if truthy searchQuery then Search
      else if truthy genreIdOrCategoryName \<and> typeof genreIdOrCategoryName = ''string'' then
        Category
      else if truthy genreIdOrCategoryName \<and> typeof genreIdOrCategoryName = ''number'' then
        Genre
      else Popular)"

text \<open>The path and parameters that each return statement of \<open>getMovies\<close> writes.\<close>

fun branch_target :: "jsval \<Rightarrow> jsval \<Rightarrow> jsval \<Rightarrow> jsval \<Rightarrow> branch \<Rightarrow> target" where
  "branch_target key g page q Search =
     \<lparr>path = ''/search/movie'',
      params = [(''query'', to_string q), (''page'', to_string page),
                (''api_key'', to_string key)]\<rparr>"
| "branch_target key g page q Category =
     \<lparr>path = ''/movie/'' @ to_string g,
      params = [(''page'', to_string page), (''api_key'', to_string key)]\<rparr>"
| "branch_target key g page q Genre =
     \<lparr>path = ''discover/movie'',
      params = [(''with_genres'', to_string g), (''page'', to_string page),
                (''api_key'', to_string key)]\<rparr>"
| "branch_target key g page q Popular =
     \<lparr>path = ''/movie/popular'',
      params = [(''page'', to_string page), (''api_key'', to_string key)]\<rparr>"

text \<open>The path and parameters that the template of each endpoint writes.\<close>

fun endpoint_target :: "jsval \<Rightarrow> call \<Rightarrow> target" where
  "endpoint_target key GetGenres =
     \<lparr>path = ''/genre/movie/list'', params = [(''api_key'', to_string key)]\<rparr>"
| "endpoint_target key (GetMovies g page q) =
     branch_target key g page q (getMovies_branch g q)"
| "endpoint_target key (GetMovie ident) =
     \<lparr>path = ''/movie/'' @ to_string ident,
      params = [(''append_to_response'', ''videos,credits''), (''api_key'', to_string key)]\<rparr>"
| "endpoint_target key (GetRecommendations movieId list) =
     \<lparr>path = ''/movie/'' @ to_string movieId @ ''/'' @ to_string list,
      params = [(''api_key'', to_string key)]\<rparr>"
| "endpoint_target key (GetActorDetails ident) =
     \<lparr>path = ''person/'' @ to_string ident, params = [(''api_key'', to_string key)]\<rparr>"
| "endpoint_target key (GetMoviesByActorId ident page) =
     \<lparr>path = ''/discover/movie'',
      params = [(''with_cast'', to_string ident), (''page'', to_string page),
                (''api_key'', to_string key)]\<rparr>"
| "endpoint_target key (GetList listName accountId sessionId page) =
     \<lparr>path = ''/account/'' @ to_string accountId @ ''/'' @ to_string listName,
      params = [(''api_key'', to_string key), (''session_id'', to_string sessionId),
                (''page'', to_string page)]\<rparr>"

section \<open>Reading a URL back\<close>

text \<open>
  How a consumer of the URL splits it: the fragment starts at the first \<open>#\<close>, the
  query at the first \<open>?\<close> before it, parameters are separated by \<open>&\<close> (empty ones
  are skipped) and a parameter's name ends at its first \<open>=\<close>.
\<close>

definition strip_fragment :: "string \<Rightarrow> string" where
  "strip_fragment u = takeWhile (\<lambda>c. c \<noteq> CHR ''#'') u"

definition url_path :: "string \<Rightarrow> string" where
  "url_path u = takeWhile (\<lambda>c. c \<noteq> CHR ''?'') (strip_fragment u)"

definition url_query :: "string \<Rightarrow> string" where
  "url_query u = drop 1 (dropWhile (\<lambda>c. c \<noteq> CHR ''?'') (strip_fragment u))"

fun split_on :: "char \<Rightarrow> string \<Rightarrow> string list" where
  "split_on c [] = [[]]"
| "split_on c (x # xs) =
     (if x = c then [] # split_on c xs
      else (case split_on c xs of [] \<Rightarrow> [[x]] | w # ws \<Rightarrow> (x # w) # ws))"

definition parse_param :: "string \<Rightarrow> string \<times> string" where
  "parse_param s =
     (takeWhile (\<lambda>c. c \<noteq> CHR ''='') s, drop 1 (dropWhile (\<lambda>c. c \<noteq> CHR ''='') s))"

definition query_params :: "string \<Rightarrow> (string \<times> string) list" where
  "query_params u =
     map parse_param (filter (\<lambda>s. s \<noteq> []) (split_on CHR ''&'' (url_query u)))"

definition param_values :: "string \<Rightarrow> string \<Rightarrow> string list" where
  "param_values name u = map snd (filter (\<lambda>kv. fst kv = name) (query_params u))"

text \<open>Text without the three characters that delimit the parts of a URL.\<close>

definition url_safe :: "string \<Rightarrow> bool" where
  "url_safe s = list_all (\<lambda>c. c \<noteq> CHR ''?'' \<and> c \<noteq> CHR ''&'' \<and> c \<noteq> CHR ''#'') s"

definition safe_value :: "jsval \<Rightarrow> bool" where
  "safe_value v = url_safe (to_string v)"

section \<open>Helper facts\<close>

lemma to_string_1: "to_string (JNum 1) = ''1''"
  by (simp add: number_to_string_def dec_nat.simps [of "Suc 0"] digit_char_def)

lemma to_string_2: "to_string (JNum 2) = ''2''"
  by (simp add: number_to_string_def dec_nat.simps [of 2] digit_char_def)

lemma to_string_3: "to_string (JNum 3) = ''3''"
  by (simp add: number_to_string_def dec_nat.simps [of 3] digit_char_def)

lemma to_string_28: "to_string (JNum 28) = ''28''"
  by (simp add: number_to_string_def dec_nat.simps [of 28] dec_nat.simps [of 2] digit_char_def)

lemma to_string_550: "to_string (JNum 550) = ''550''"
  by (simp add: number_to_string_def dec_nat.simps [of 550] dec_nat.simps [of 55]
      dec_nat.simps [of 5] digit_char_def)

lemmas to_string_num = to_string.simps(4)

lemma getMovies_render:
  "getMovies key g page q = render (branch_target key g page q (getMovies_branch g q))"
  by (simp add: getMovies_def getMovies_branch_def render_def)

lemma endpoints_render: "endpoints key c = render (endpoint_target key c)"
  by (cases c)
     (simp_all add: getMovies_render getGenres_def getMovie_def getRecommendations_def
        getActorDetails_def getMoviesByActorId_def getList_def render_def)

subsection \<open>Splitting at a delimiter\<close>

lemma takeWhile_upto: "c \<notin> set a \<Longrightarrow> takeWhile (\<lambda>x. x \<noteq> c) (a @ c # b) = a"
  by (induction a) auto

lemma dropWhile_upto: "c \<notin> set a \<Longrightarrow> dropWhile (\<lambda>x. x \<noteq> c) (a @ c # b) = c # b"
  by (induction a) auto

lemma takeWhile_absent: "c \<notin> set a \<Longrightarrow> takeWhile (\<lambda>x. x \<noteq> c) a = a"
  by (induction a) auto

lemma takeWhile_past:
  "c \<notin> set a \<Longrightarrow> takeWhile (\<lambda>x. x \<noteq> c) (a @ b) = a @ takeWhile (\<lambda>x. x \<noteq> c) b"
  by (induction a) auto

lemma split_on_clean: "c \<notin> set a \<Longrightarrow> split_on c a = [a]"
  by (induction a) auto

lemma split_on_append: "c \<notin> set a \<Longrightarrow> split_on c (a @ c # b) = a # split_on c b"
  by (induction a) auto

lemma url_safe_set:
  "url_safe s \<longleftrightarrow> CHR ''?'' \<notin> set s \<and> CHR ''&'' \<notin> set s \<and> CHR ''#'' \<notin> set s"
  by (auto simp: url_safe_def list_all_iff)

lemma url_safe_append [simp]: "url_safe (a @ b) \<longleftrightarrow> url_safe a \<and> url_safe b"
  by (simp add: url_safe_def)

lemma url_safe_Cons [simp]:
  "url_safe (x # xs) \<longleftrightarrow>
     x \<noteq> CHR ''?'' \<and> x \<noteq> CHR ''&'' \<and> x \<noteq> CHR ''#'' \<and> url_safe xs"
  by (simp add: url_safe_def)

lemma url_safe_Nil [simp]: "url_safe []"
  by (simp add: url_safe_def)

subsection \<open>Reading back a rendered target\<close>

lemma split_join_params:
  "kvs \<noteq> [] \<Longrightarrow> \<forall>kv \<in> set kvs. url_safe (fst kv) \<and> url_safe (snd kv) \<Longrightarrow>
   split_on CHR ''&'' (join_params kvs) = map (\<lambda>kv. fst kv @ ''='' @ snd kv) kvs"
proof (induction kvs rule: join_params.induct)
  case 1
  then show ?case by simp
next
  case (2 k v)
  then show ?case by (simp add: split_on_clean url_safe_set)
next
  case (3 k v kv kvs)
  have "CHR ''&'' \<notin> set (k @ ''='' @ v)"
    using 3 by (simp add: url_safe_set)
  then have "split_on CHR ''&'' ((k @ ''='' @ v) @ CHR ''&'' # join_params (kv # kvs))
      = (k @ ''='' @ v) # split_on CHR ''&'' (join_params (kv # kvs))"
    by (rule split_on_append)
  with 3 show ?case by simp
qed

lemma join_params_safe:
  "\<forall>kv \<in> set kvs. url_safe (fst kv) \<and> url_safe (snd kv) \<Longrightarrow>
   CHR ''#'' \<notin> set (join_params kvs)"
  by (induction kvs rule: join_params.induct) (auto simp: url_safe_set)

lemma url_query_render:
  assumes "url_safe (path t)"
    and "\<forall>kv \<in> set (params t). url_safe (fst kv) \<and> url_safe (snd kv)"
  shows "url_query (render t) = join_params (params t)"
proof -
  have "CHR ''#'' \<notin> set (render t)"
    using assms join_params_safe [of "params t"] by (simp add: render_def url_safe_set)
  then have "strip_fragment (render t) = render t"
    unfolding strip_fragment_def by (rule takeWhile_absent)
  moreover have "dropWhile (\<lambda>c. c \<noteq> CHR ''?'') (path t @ CHR ''?'' # join_params (params t))
      = CHR ''?'' # join_params (params t)"
    using assms(1) by (simp add: dropWhile_upto url_safe_set)
  ultimately show ?thesis by (simp add: url_query_def render_def)
qed

lemma parse_param_pair: "CHR ''='' \<notin> set k \<Longrightarrow> parse_param (k @ ''='' @ v) = (k, v)"
  by (simp add: parse_param_def takeWhile_upto dropWhile_upto)

lemma query_params_render:
  assumes "params t \<noteq> []" "url_safe (path t)"
    and "\<forall>kv \<in> set (params t).
           CHR ''='' \<notin> set (fst kv) \<and> url_safe (fst kv) \<and> url_safe (snd kv)"
  shows "query_params (render t) = params t"
proof -
  have "query_params (render t)
      = map parse_param
          (filter (\<lambda>s. s \<noteq> []) (map (\<lambda>kv. fst kv @ ''='' @ snd kv) (params t)))"
    using assms by (simp add: query_params_def url_query_render split_join_params)
  also have "filter (\<lambda>s. s \<noteq> []) (map (\<lambda>kv. fst kv @ ''='' @ snd kv) (params t))
      = map (\<lambda>kv. fst kv @ ''='' @ snd kv) (params t)"
    by (simp add: filter_map o_def)
  also have "map parse_param (map (\<lambda>kv. fst kv @ ''='' @ snd kv) (params t)) = params t"
  proof -
    have "\<And>kv. kv \<in> set (params t) \<Longrightarrow> parse_param (fst kv @ ''='' @ snd kv) = kv"
      using assms(3) parse_param_pair by (metis prod.collapse)
    then show ?thesis by (simp add: map_idI o_def del: append.simps)
  qed
  finally show ?thesis .
qed

subsection \<open>The text of a number\<close>

lemma digit_char_digit: "digit_char d \<in> set ''0123456789''"
  unfolding digit_char_def by (rule nth_mem) simp

lemma dec_nat_digits: "set (dec_nat n) \<subseteq> set ''0123456789''"
proof (induction n rule: dec_nat.induct)
  case (1 n)
  show ?case
  proof (cases "n < 10")
    case True
    then show ?thesis
      using digit_char_digit [of n] by (simp add: dec_nat.simps [of n])
  next
    case False
    then show ?thesis
      using 1 digit_char_digit [of "n mod 10"] by (simp add: dec_nat.simps [of n])
  qed
qed

lemma number_to_string_chars: "set (number_to_string n) \<subseteq> set ''-0123456789''"
proof -
  have "set (dec_nat m) \<subseteq> set ''-0123456789''" for m
    using dec_nat_digits [of m] by (rule subset_trans) (rule set_subset_Cons)
  then show ?thesis
    by (simp add: number_to_string_def)
qed

lemma number_to_string_lacks:
  assumes "c \<notin> set ''-0123456789''"
  shows "c \<notin> set (number_to_string n)"
  using assms number_to_string_chars [of n] by blast

lemma safe_value_JNum: "safe_value (JNum n)"
  by (simp add: safe_value_def url_safe_set number_to_string_lacks)

lemma no_colon_JNum: "CHR '':'' \<notin> set (to_string (JNum n))"
  by (simp add: number_to_string_lacks)

subsection \<open>Path and parameters of a rendered target\<close>

lemma url_path_render:
  assumes "url_safe (path t)"
  shows "url_path (render t) = path t"
proof -
  have "strip_fragment (render t)
      = path t @ takeWhile (\<lambda>c. c \<noteq> CHR ''#'') (CHR ''?'' # join_params (params t))"
    using assms by (simp add: strip_fragment_def render_def takeWhile_past url_safe_set)
  then have "strip_fragment (render t)
      = path t @ CHR ''?'' # takeWhile (\<lambda>c. c \<noteq> CHR ''#'') (join_params (params t))"
    by simp
  then show ?thesis
    using assms by (simp add: url_path_def takeWhile_upto url_safe_set)
qed

lemma endpoint_read_back:
  assumes "list_all safe_value (key # call_args c)"
  shows "url_path (endpoints key c) = path (endpoint_target key c)"
    and "query_params (endpoints key c) = params (endpoint_target key c)"
proof -
  let ?t = "endpoint_target key c"
  have p: "params ?t \<noteq> []"
    by (cases c) (simp_all add: getMovies_branch_def)
  have q: "url_safe (path ?t)"
    using assms by (cases c) (simp_all add: getMovies_branch_def safe_value_def)
  have r: "\<forall>kv \<in> set (params ?t).
      CHR ''='' \<notin> set (fst kv) \<and> url_safe (fst kv) \<and> url_safe (snd kv)"
    using assms by (cases c) (simp_all add: getMovies_branch_def safe_value_def)
  show "url_path (endpoints key c) = path ?t"
    using url_path_render [OF q] by (simp add: endpoints_render)
  show "query_params (endpoints key c) = params ?t"
    using query_params_render [OF p q r] by (simp add: endpoints_render)
qed

subsection \<open>Relative texts\<close>

lemma colon_slashes_colon: "colon_slashes s \<Longrightarrow> CHR '':'' \<in> set s"
  by (induction s) auto

lemmas url_eval =
  url_path_def url_query_def strip_fragment_def query_params_def parse_param_def
  param_values_def

section \<open>Selecting the movie list\<close>

text \<open>
  C1. Selector precedence of \<open>getMovies\<close>. A truthy search text (every non-empty string
  is one) selects the search branch, with path \<open>/search/movie\<close> and the parameters
  \<open>query\<close> and \<open>page\<close>, whatever genre id or category name comes with it. Without
  one, a non-empty string selects the category branch, otherwise a non-zero number
  selects the genre branch, otherwise the popular default is taken. Every call takes
  one of the four branches and returns what that branch writes.
\<close>

theorem getMovies_precedence:
  "(truthy q \<longrightarrow>
      getMovies_branch g q = Search
      \<and> getMovies key g page q =
          render \<lparr>path = ''/search/movie'',
                  params = [(''query'', to_string q), (''page'', to_string page),
                            (''api_key'', to_string key)]\<rparr>)
   \<and> (\<not> truthy q \<and> truthy g \<and> typeof g = ''string'' \<longrightarrow> getMovies_branch g q = Category)
   \<and> (\<not> truthy q \<and> \<not> (truthy g \<and> typeof g = ''string'')
        \<and> truthy g \<and> typeof g = ''number'' \<longrightarrow> getMovies_branch g q = Genre)
   \<and> (\<not> truthy q \<and> \<not> (truthy g \<and> typeof g = ''string'')
        \<and> \<not> (truthy g \<and> typeof g = ''number'') \<longrightarrow> getMovies_branch g q = Popular)
   \<and> getMovies key g page q = render (branch_target key g page q (getMovies_branch g q))"
  by (simp add: getMovies_def getMovies_branch_def render_def)

theorem getMovies_precedence_witness:
  "truthy (JStr ''batman'')
   \<and> getMovies_branch (JNum 28) (JStr ''batman'') = Search
   \<and> getMovies (JStr ''K'') (JNum 28) (JNum 1) (JStr ''batman'') =
       ''/search/movie?query=batman&page=1&api_key=K''
   \<and> getMovies_branch (JStr ''top_rated'') (JStr ''batman'') = Search
   \<and> getMovies_branch (JStr ''top_rated'') JUndefined = Category
   \<and> getMovies_branch (JNum 28) JUndefined = Genre
   \<and> getMovies_branch (JBool True) JUndefined = Popular
   \<and> getMovies_branch JUndefined JUndefined = Popular"
  using getMovies_precedence [of "JStr ''batman''" "JNum 28" "JStr ''K''" "JNum 1"]
    getMovies_precedence [of "JStr ''batman''" "JStr ''top_rated''" "JStr ''K''" "JNum 1"]
    getMovies_precedence [of JUndefined "JStr ''top_rated''" "JStr ''K''" "JNum 1"]
    getMovies_precedence [of JUndefined "JNum 28" "JStr ''K''" "JNum 1"]
    getMovies_precedence [of JUndefined "JBool True" "JStr ''K''" "JNum 1"]
    getMovies_precedence [of JUndefined JUndefined "JStr ''K''" "JNum 1"]
  by (simp add: render_def to_string_1 del: to_string_num)

text \<open>
  A page text carrying \<open>&page=2\<close> is pasted into the genre URL as it is: the request
  then has the parameter \<open>page\<close> twice, and neither value is the page that was given.
  A genre id of 0 is falsy and gives the popular default.
\<close>

theorem getMovies_genre_page_split:
  "getMovies (JStr ''K'') (JNum 28) (JStr ''1&page=2'') JUndefined =
     ''discover/movie?with_genres=28&page=1&page=2&api_key=K''
   \<and> param_values ''page''
        (joinUrls baseUrl (getMovies (JStr ''K'') (JNum 28) (JStr ''1&page=2'') JUndefined)) =
       [''1'', ''2'']
   \<and> getMovies (JStr ''K'') (JNum 0) (JNum 1) JUndefined = ''/movie/popular?page=1&api_key=K''"
  by (simp add: getMovies_def to_string_1 to_string_28 url_eval joinUrls_def baseUrl_def
      isAbsoluteUrl_def endsWithSlash_def withoutTrailingSlash_def withoutLeadingSlash_def
      del: to_string_num)

text \<open>
  C2, as the code has it. A non-zero numeric genre identifier as selector, with no
  search text: the request that the returned text addresses under the base URL has the
  path \<open>/discover/movie\<close> below the base, with the parameters \<open>with_genres\<close> set to
  the genre id and \<open>page\<close> set to the given page, followed by the credential. The
  returned text spells the path without its leading slash; the join to the base URL puts
  it there. The page and the credential are texts without \<open>?\<close>, \<open>&\<close>, \<open>#\<close> and
  \<open>:\<close>, as the text of every number is.
\<close>

theorem getMovies_genre_target:
  assumes "n \<noteq> 0" and "\<not> truthy q"
    and "safe_value page" and "CHR '':'' \<notin> set (to_string page)"
    and "safe_value key" and "CHR '':'' \<notin> set (to_string key)"
  shows "url_path (joinUrls baseUrl (getMovies key (JNum n) page q)) =
           baseUrl @ ''/discover/movie''
       \<and> query_params (joinUrls baseUrl (getMovies key (JNum n) page q)) =
           [(''with_genres'', to_string (JNum n)), (''page'', to_string page),
            (''api_key'', to_string key)]"
proof -
  let ?u = "getMovies key (JNum n) page q"
  let ?t = "\<lparr>path = baseUrl @ ''/discover/movie'',
             params = [(''with_genres'', to_string (JNum n)), (''page'', to_string page),
                       (''api_key'', to_string key)]\<rparr>"
  have u: "?u = ''discover/movie?with_genres='' @ to_string (JNum n) @ ''&page=''
      @ to_string page @ ''&api_key='' @ to_string key"
    using assms(1,2) by (simp add: getMovies_def)
  have "CHR '':'' \<notin> set ?u"
    using assms(4,6) no_colon_JNum [of n] by (simp add: u del: to_string_num)
  then have "\<not> colon_slashes ?u"
    using colon_slashes_colon by blast
  moreover have "take 2 ?u \<noteq> ''//''"
    by (simp add: u)
  ultimately have "\<not> isAbsoluteUrl ?u"
    by (simp add: isAbsoluteUrl_def)
  moreover have "?u \<noteq> []" "take 1 ?u \<noteq> ''?''" "take 1 ?u \<noteq> ''/''"
    by (simp_all add: u)
  ultimately have j: "joinUrls baseUrl ?u = baseUrl @ ''/'' @ ?u"
    by (simp add: joinUrls_def withoutTrailingSlash_def withoutLeadingSlash_def
        endsWithSlash_def baseUrl_def)
  have r: "joinUrls baseUrl ?u = render ?t"
    unfolding j by (simp add: u render_def del: to_string_num)
  have safe: "url_safe (to_string (JNum n))"
    using safe_value_JNum [of n] by (simp add: safe_value_def)
  have "url_path (render ?t) = path ?t"
    by (rule url_path_render) (simp add: baseUrl_def)
  moreover have "query_params (render ?t) = params ?t"
    using assms(3,5) safe
    by (intro query_params_render) (simp_all add: baseUrl_def safe_value_def del: to_string_num)
  ultimately show ?thesis
    by (simp add: r del: to_string_num)
qed

theorem getMovies_genre_target_witness:
  "(28::int) \<noteq> 0 \<and> \<not> truthy JUndefined
   \<and> safe_value (JNum 1) \<and> CHR '':'' \<notin> set (to_string (JNum 1))
   \<and> safe_value (JStr ''K'') \<and> CHR '':'' \<notin> set (to_string (JStr ''K''))
   \<and> getMovies (JStr ''K'') (JNum 28) (JNum 1) JUndefined =
       ''discover/movie?with_genres=28&page=1&api_key=K''
   \<and> url_path (joinUrls baseUrl (getMovies (JStr ''K'') (JNum 28) (JNum 1) JUndefined)) =
       ''https://api.themoviedb.org/3/discover/movie''
   \<and> query_params (joinUrls baseUrl (getMovies (JStr ''K'') (JNum 28) (JNum 1) JUndefined)) =
       [(''with_genres'', ''28''), (''page'', ''1''), (''api_key'', ''K'')]"
proof -
  have h: "(28::int) \<noteq> 0" "\<not> truthy JUndefined"
      "safe_value (JNum 1)" "CHR '':'' \<notin> set (to_string (JNum 1))"
      "safe_value (JStr ''K'')" "CHR '':'' \<notin> set (to_string (JStr ''K''))"
    by (simp_all add: safe_value_def to_string_1 del: to_string_num)
  have "getMovies (JStr ''K'') (JNum 28) (JNum 1) JUndefined =
      ''discover/movie?with_genres=28&page=1&api_key=K''"
    by (simp add: getMovies_def to_string_1 to_string_28 del: to_string_num)
  with h getMovies_genre_target [OF h] show ?thesis
    by (simp add: baseUrl_def to_string_1 to_string_28 del: to_string_num)
qed

text \<open>
  A page text carrying \<open>&page=2\<close> is pasted as it is: the default URL then has the
  parameter \<open>page\<close> twice, and neither value is the page that was given.
\<close>

theorem getMovies_popular_page_split:
  "getMovies (JStr ''K'') JUndefined (JStr ''1&page=2'') JUndefined =
     ''/movie/popular?page=1&page=2&api_key=K''
   \<and> param_values ''page''
        (getMovies (JStr ''K'') JUndefined (JStr ''1&page=2'') JUndefined) = [''1'', ''2'']"
  by (simp add: getMovies_def url_eval)

text \<open>
  C4, as the code has it. With search text and selector both absent, \<open>getMovies\<close> gives
  the path \<open>/movie/popular\<close>, and the \<open>page\<close> parameter is the text of the given page
  for every page whose text has none of \<open>?\<close>, \<open>&\<close> and \<open>#\<close> (every number is such
  a page), the credential being such a text too.
\<close>

theorem getMovies_popular_target:
  assumes "safe_value page" and "safe_value key"
  shows "url_path (getMovies key JUndefined page JUndefined) = ''/movie/popular''
       \<and> query_params (getMovies key JUndefined page JUndefined) =
           [(''page'', to_string page), (''api_key'', to_string key)]"
  using assms endpoint_read_back [of key "GetMovies JUndefined page JUndefined"]
  by (simp add: getMovies_branch_def safe_value_def)

theorem getMovies_popular_target_witness:
  "safe_value (JNum 2) \<and> safe_value (JStr ''K'')
   \<and> getMovies (JStr ''K'') JUndefined (JNum 2) JUndefined = ''/movie/popular?page=2&api_key=K''
   \<and> url_path (getMovies (JStr ''K'') JUndefined (JNum 2) JUndefined) = ''/movie/popular''
   \<and> query_params (getMovies (JStr ''K'') JUndefined (JNum 2) JUndefined) =
       [(''page'', ''2''), (''api_key'', ''K'')]"
proof -
  have h: "safe_value (JNum 2)" "safe_value (JStr ''K'')"
    by (simp_all add: safe_value_def to_string_2 del: to_string_num)
  have "getMovies (JStr ''K'') JUndefined (JNum 2) JUndefined = ''/movie/popular?page=2&api_key=K''"
    by (simp add: getMovies_def to_string_2 del: to_string_num)
  with h getMovies_popular_target [OF h] show ?thesis
    by (simp add: to_string_2 del: to_string_num)
qed

text \<open>
  A category name carrying \<open>?x=1\<close> is pasted as it is: the path read from the URL
  stops before it, and the URL has no parameter \<open>page\<close>.
\<close>

theorem getMovies_category_split:
  "getMovies (JStr ''K'') (JStr ''popular?x=1'') (JNum 2) JUndefined =
     ''/movie/popular?x=1?page=2&api_key=K''
   \<and> url_path (getMovies (JStr ''K'') (JStr ''popular?x=1'') (JNum 2) JUndefined) =
       ''/movie/popular''
   \<and> param_values ''page''
        (getMovies (JStr ''K'') (JStr ''popular?x=1'') (JNum 2) JUndefined) = []"
  by (simp add: getMovies_def to_string_2 url_eval del: to_string_num)

text \<open>
  C8, as the code has it. With no search text, a non-empty string selector \<open>s\<close> without
  \<open>?\<close>, \<open>&\<close> and \<open>#\<close> gives the path \<open>/movie/{s}\<close> with the given page as the
  \<open>page\<close> parameter, the page and the credential being such texts too.
\<close>

theorem getMovies_category_target:
  assumes "s \<noteq> []" and "\<not> truthy q"
    and "url_safe s" and "safe_value page" and "safe_value key"
  shows "url_path (getMovies key (JStr s) page q) = ''/movie/'' @ s
       \<and> query_params (getMovies key (JStr s) page q) =
           [(''page'', to_string page), (''api_key'', to_string key)]"
proof -
  have "safe_value q"
    using assms(2) by (cases q) (simp_all add: safe_value_JNum, simp_all add: safe_value_def)
  with assms endpoint_read_back [of key "GetMovies (JStr s) page q"] show ?thesis
    by (simp add: getMovies_branch_def safe_value_def)
qed

theorem getMovies_category_target_witness:
  "''top_rated'' \<noteq> [] \<and> \<not> truthy JUndefined \<and> url_safe ''top_rated''
   \<and> safe_value (JNum 2) \<and> safe_value (JStr ''K'')
   \<and> getMovies (JStr ''K'') (JStr ''top_rated'') (JNum 2) JUndefined =
       ''/movie/top_rated?page=2&api_key=K''
   \<and> url_path (getMovies (JStr ''K'') (JStr ''top_rated'') (JNum 2) JUndefined) =
       ''/movie/top_rated''
   \<and> query_params (getMovies (JStr ''K'') (JStr ''top_rated'') (JNum 2) JUndefined) =
       [(''page'', ''2''), (''api_key'', ''K'')]"
proof -
  have h: "''top_rated'' \<noteq> []" "\<not> truthy JUndefined" "url_safe ''top_rated''"
      "safe_value (JNum 2)" "safe_value (JStr ''K'')"
    by (simp_all add: safe_value_def to_string_2 del: to_string_num)
  have "getMovies (JStr ''K'') (JStr ''top_rated'') (JNum 2) JUndefined =
      ''/movie/top_rated?page=2&api_key=K''"
    by (simp add: getMovies_def to_string_2 del: to_string_num)
  with h getMovies_category_target [OF h] show ?thesis
    by (simp add: to_string_2 del: to_string_num)
qed

text \<open>
  C9. Falsy selectors count as absent. An empty search text never selects the search
  branch and leaves the result what it is without search text; an empty string selector
  never selects the category branch and a genre id of 0 never selects the genre branch,
  each leaving the result what it is without a selector; with both selectors falsy the
  result is the \<open>/movie/popular\<close> default, for every page.
\<close>

theorem getMovies_falsy_absent:
  "getMovies_branch g (JStr []) \<noteq> Search
   \<and> getMovies key g page (JStr []) = getMovies key g page JUndefined
   \<and> getMovies_branch (JStr []) q \<noteq> Category
   \<and> getMovies key (JStr []) page q = getMovies key JUndefined page q
   \<and> getMovies_branch (JNum 0) q \<noteq> Genre
   \<and> getMovies key (JNum 0) page q = getMovies key JUndefined page q
   \<and> (\<not> truthy g \<and> \<not> truthy q \<longrightarrow>
        getMovies_branch g q = Popular
        \<and> getMovies key g page q =
            render \<lparr>path = ''/movie/popular'',
                    params = [(''page'', to_string page), (''api_key'', to_string key)]\<rparr>)"
  by (simp add: getMovies_def getMovies_branch_def render_def)

theorem getMovies_falsy_absent_witness:
  "\<not> truthy (JNum 0) \<and> \<not> truthy (JStr [])
   \<and> getMovies_branch (JNum 0) (JStr []) = Popular
   \<and> getMovies (JStr ''K'') (JNum 0) (JNum 3) (JStr []) = ''/movie/popular?page=3&api_key=K''"
proof -
  have h: "\<not> truthy (JNum 0) \<and> \<not> truthy (JStr [])"
    by simp
  with getMovies_falsy_absent [of "JNum 0" "JStr ''K''" "JNum 3" "JStr []"]
  have "getMovies_branch (JNum 0) (JStr []) = Popular
      \<and> getMovies (JStr ''K'') (JNum 0) (JNum 3) (JStr []) =
          render \<lparr>path = ''/movie/popular'',
                  params = [(''page'', to_string (JNum 3)),
                            (''api_key'', to_string (JStr ''K''))]\<rparr>"
    by blast
  with h show ?thesis
    by (simp add: render_def to_string_3 del: to_string_num)
qed

section \<open>Movie detail and account lists\<close>

text \<open>
  A movie id carrying \<open>?x=1\<close> is pasted as it is: the path read from the URL stops
  before it, and the URL has no parameter \<open>append_to_response\<close>.
\<close>

theorem getMovie_id_split:
  "getMovie (JStr ''K'') (JStr ''550?x=1'') =
     ''/movie/550?x=1?append_to_response=videos,credits&api_key=K''
   \<and> url_path (getMovie (JStr ''K'') (JStr ''550?x=1'')) = ''/movie/550''
   \<and> param_values ''append_to_response'' (getMovie (JStr ''K'') (JStr ''550?x=1'')) = []"
  by (simp add: getMovie_def url_eval)

text \<open>
  C5, as the code has it. For every movie id whose text has none of \<open>?\<close>, \<open>&\<close> and
  \<open>#\<close> (every number is such an id), the credential being such a text too,
  \<open>getMovie\<close> gives the path \<open>/movie/{id}\<close> with the parameter
  \<open>append_to_response\<close> equal to \<open>videos,credits\<close>, followed by the credential.
\<close>

theorem getMovie_read_back:
  assumes "safe_value ident" and "safe_value key"
  shows "url_path (getMovie key ident) = ''/movie/'' @ to_string ident
       \<and> query_params (getMovie key ident) =
           [(''append_to_response'', ''videos,credits''), (''api_key'', to_string key)]"
  using assms endpoint_read_back [of key "GetMovie ident"]
  by simp

theorem getMovie_read_back_witness:
  "safe_value (JNum 550) \<and> safe_value (JStr ''K'')
   \<and> getMovie (JStr ''K'') (JNum 550) =
       ''/movie/550?append_to_response=videos,credits&api_key=K''
   \<and> url_path (getMovie (JStr ''K'') (JNum 550)) = ''/movie/550''
   \<and> query_params (getMovie (JStr ''K'') (JNum 550)) =
       [(''append_to_response'', ''videos,credits''), (''api_key'', ''K'')]"
proof -
  have h: "safe_value (JNum 550)" "safe_value (JStr ''K'')"
    by (simp_all add: safe_value_def to_string_550 del: to_string_num)
  have "getMovie (JStr ''K'') (JNum 550) =
      ''/movie/550?append_to_response=videos,credits&api_key=K''"
    by (simp add: getMovie_def to_string_550 del: to_string_num)
  with h getMovie_read_back [OF h] show ?thesis
    by (simp add: to_string_550 del: to_string_num)
qed

text \<open>
  A session id carrying \<open>&page=9\<close> is pasted as it is: the URL then reads
  \<open>session_id=abc\<close> and has the parameter \<open>page\<close> twice.
\<close>

theorem getList_session_split:
  "getList (JStr ''K'') (JStr ''favorite/movies'') (JStr ''123'') (JStr ''abc&page=9'') (JNum 1) =
     ''/account/123/favorite/movies?api_key=K&session_id=abc&page=9&page=1''
   \<and> query_params (getList (JStr ''K'') (JStr ''favorite/movies'') (JStr ''123'')
         (JStr ''abc&page=9'') (JNum 1)) =
       [(''api_key'', ''K''), (''session_id'', ''abc''), (''page'', ''9''), (''page'', ''1'')]"
  by (simp add: getList_def to_string_1 url_eval del: to_string_num)

text \<open>
  C6, as the code has it. For every account id, list name, session id and page whose
  texts have none of \<open>?\<close>, \<open>&\<close> and \<open>#\<close>, the credential being such a text too,
  \<open>getList\<close> gives the path \<open>/account/{accountId}/{listName}\<close> with the parameters
  \<open>session_id\<close> and \<open>page\<close> set to the given session id and page, after the
  credential.
\<close>

theorem getList_read_back:
  assumes "safe_value listName" and "safe_value accountId"
    and "safe_value sessionId" and "safe_value page" and "safe_value key"
  shows "url_path (getList key listName accountId sessionId page) =
           ''/account/'' @ to_string accountId @ ''/'' @ to_string listName
       \<and> query_params (getList key listName accountId sessionId page) =
           [(''api_key'', to_string key), (''session_id'', to_string sessionId),
            (''page'', to_string page)]"
  using assms endpoint_read_back [of key "GetList listName accountId sessionId page"]
  by simp

theorem getList_read_back_witness:
  "safe_value (JStr ''favorite/movies'') \<and> safe_value (JStr ''123'')
   \<and> safe_value (JStr ''abc'') \<and> safe_value (JNum 1) \<and> safe_value (JStr ''K'')
   \<and> getList (JStr ''K'') (JStr ''favorite/movies'') (JStr ''123'') (JStr ''abc'') (JNum 1) =
       ''/account/123/favorite/movies?api_key=K&session_id=abc&page=1''
   \<and> url_path (getList (JStr ''K'') (JStr ''favorite/movies'') (JStr ''123'') (JStr ''abc'')
         (JNum 1)) = ''/account/123/favorite/movies''
   \<and> query_params (getList (JStr ''K'') (JStr ''favorite/movies'') (JStr ''123'')
         (JStr ''abc'') (JNum 1)) =
       [(''api_key'', ''K''), (''session_id'', ''abc''), (''page'', ''1'')]"
proof -
  have h: "safe_value (JStr ''favorite/movies'')" "safe_value (JStr ''123'')"
      "safe_value (JStr ''abc'')" "safe_value (JNum 1)" "safe_value (JStr ''K'')"
    by (simp_all add: safe_value_def to_string_1 del: to_string_num)
  have "getList (JStr ''K'') (JStr ''favorite/movies'') (JStr ''123'') (JStr ''abc'') (JNum 1) =
      ''/account/123/favorite/movies?api_key=K&session_id=abc&page=1''"
    by (simp add: getList_def to_string_1 del: to_string_num)
  with h getList_read_back [OF h] show ?thesis
    by (simp add: to_string_1 del: to_string_num)
qed

section \<open>The credential\<close>

text \<open>
  With the variable missing from the environment the module still loads: the credential
  is \<open>undefined\<close> and \<open>getGenres\<close> writes it into the URL as the text \<open>undefined\<close>.
\<close>

theorem absent_credential_embedded:
  "tmdbApiKey [] = JUndefined
   \<and> getGenres (tmdbApiKey []) = ''/genre/movie/list?api_key=undefined''
   \<and> param_values ''api_key'' (getGenres (tmdbApiKey [])) = [''undefined'']"
  by (simp add: tmdbApiKey_def getGenres_def url_eval)

text \<open>
  C3, as the code has it. A credential missing from the environment raises nothing:
  the module constant is \<open>undefined\<close>, and every endpoint returns the URL it returns for
  the credential text \<open>undefined\<close>.
\<close>

theorem absent_credential_undefined:
  "map_of env ''REACT_APP_TMDB_KEY'' = None \<Longrightarrow>
   tmdbApiKey env = JUndefined
   \<and> endpoints (tmdbApiKey env) c = endpoints (JStr ''undefined'') c"
  by (cases c)
     (simp_all add: tmdbApiKey_def getGenres_def getMovies_def getMovie_def
        getRecommendations_def getActorDetails_def getMoviesByActorId_def getList_def)

theorem absent_credential_undefined_witness:
  "map_of [(''PATH'', ''/usr/bin'')] ''REACT_APP_TMDB_KEY'' = None
   \<and> tmdbApiKey [(''PATH'', ''/usr/bin'')] = JUndefined
   \<and> endpoints (tmdbApiKey [(''PATH'', ''/usr/bin'')]) (GetMovie (JNum 550)) =
       ''/movie/550?append_to_response=videos,credits&api_key=undefined''"
  using absent_credential_undefined [of "[(''PATH'', ''/usr/bin'')]" "GetMovie (JNum 550)"]
  by (simp add: getMovie_def to_string_550 del: to_string_num)

text \<open>
  A search text carrying \<open>&api_key=b\<close> is pasted as it is: the URL then has the
  parameter \<open>api_key\<close> twice, first with the value \<open>b\<close>.
\<close>

theorem api_key_twice:
  "endpoints (JStr ''K'') (GetMovies JUndefined (JNum 1) (JStr ''a&api_key=b'')) =
     ''/search/movie?query=a&api_key=b&page=1&api_key=K''
   \<and> param_values ''api_key''
       (endpoints (JStr ''K'') (GetMovies JUndefined (JNum 1) (JStr ''a&api_key=b''))) =
     [''b'', ''K'']"
  by (simp add: getMovies_def to_string_1 url_eval del: to_string_num)

text \<open>
  C10, as the code has it. When neither the credential nor any argument of the call
  contains one of the delimiters \<open>?\<close>, \<open>&\<close> and \<open>#\<close> in its text, the URL of each
  of the seven endpoints has the parameter \<open>api_key\<close> once, and its value is the
  credential.
\<close>

theorem api_key_once:
  assumes "list_all safe_value (key # call_args c)"
  shows "param_values ''api_key'' (endpoints key c) = [to_string key]"
proof -
  let ?t = "endpoint_target key c"
  have p: "params ?t \<noteq> []"
    by (cases c) (simp_all add: getMovies_branch_def)
  have q: "url_safe (path ?t)"
    using assms by (cases c) (simp_all add: getMovies_branch_def safe_value_def)
  have r: "\<forall>kv \<in> set (params ?t).
      CHR ''='' \<notin> set (fst kv) \<and> url_safe (fst kv) \<and> url_safe (snd kv)"
    using assms by (cases c) (simp_all add: getMovies_branch_def safe_value_def)
  have "query_params (endpoints key c) = params ?t"
    using query_params_render [OF p q r] by (simp add: endpoints_render)
  then show ?thesis
    by (cases c) (simp_all add: param_values_def getMovies_branch_def)
qed

theorem api_key_once_witness:
  "list_all safe_value (JStr ''K'' # call_args (GetMovies JUndefined (JNum 2) (JStr ''batman'')))
   \<and> param_values ''api_key''
       (endpoints (JStr ''K'') (GetMovies JUndefined (JNum 2) (JStr ''batman''))) = [''K'']"
  using api_key_once [of "JStr ''K''" "GetMovies JUndefined (JNum 2) (JStr ''batman'')"]
  by (simp add: safe_value_def to_string_2 del: to_string_num)

end
